theory Spec2Isabelle
  imports Main "HOL-Library.Word"
begin

section \<open>The image pipeline of the genesys backend\<close>

text \<open>
  A shallow embedding of \<^verbatim>\<open>src/backend/genesys_image_pipeline.h\<close>. The header holds the
  class declarations of the pipeline nodes, the inline getters of every node, the inline
  \<^verbatim>\<open>get_next_row_data\<close> of the plain-callback source and the inline members of
  \<^verbatim>\<open>ImagePipelineStack\<close>. The out-of-line members live in a translation unit that is
  not part of the sources; where one of them is needed it is written from the specification
  and marked as such.

  Conventions.
  \<^item> \<^verbatim>\<open>std::size_t\<close> is taken as a 64-bit unsigned word, \<^verbatim>\<open>unsigned\<close> as a 32-bit one and
    \<^verbatim>\<open>std::uint8_t\<close> as a byte; a row is the list of bytes held by the caller's buffer.
  \<^item> A C++ member \<^verbatim>\<open>name_\<close> of a class becomes the record field \<^verbatim>\<open>name\<close> with a short
    class prefix (\<^verbatim>\<open>cs_\<close>, \<^verbatim>\<open>as_\<close>, \<^verbatim>\<open>dsg_\<close>, \<^verbatim>\<open>mml_\<close>), since a trailing underscore is
    not a usable name here and several classes share member names.
  \<^item> A thrown exception is the left injection of a sum; an operation that mutates an object
    returns the new object. Behaviour the language leaves undefined (division by zero,
    \<^verbatim>\<open>back()\<close> of an empty vector, a write past the end of a buffer) is the distinct
    value \<open>UndefinedBehaviour\<close>, so that it is never mistaken for a reported error.
\<close>

subsection \<open>Basic types\<close>

type_synonym size_t = "64 word"
type_synonym uint8_t = "8 word"
type_synonym row = "uint8_t list"

text \<open>
  The header throws \<^verbatim>\<open>SaneException\<close> with a message. The four kinds after it are the error
  kinds the specification names; they are raised only by the parts written from the
  specification.
\<close>

datatype error =
    SaneException string
  | StackConstructionError
  | ProducerUnderrun
  | GeometryPrecondition
  | OutOfData
  | UndefinedBehaviour

text \<open>
  Modelled from the spec: \<^verbatim>\<open>PixelFormat\<close> and \<^verbatim>\<open>ColorOrder\<close> are declared in
  \<^verbatim>\<open>genesys_image.h\<close>, which is not part of the sources; the header only names the value
  \<^verbatim>\<open>PixelFormat::UNKNOWN\<close>. The specification describes a pixel format as an immutable tag
  of channel count, bit depth and channel order. The function
  \<^verbatim>\<open>get_pixel_row_bytes(format, width)\<close> of the same missing file is a parameter of every
  definition that needs it.
\<close>

datatype ColorOrder = RGB | BGR

datatype PixelFormat =
    UNKNOWN
  | Layout (channels: nat) (depth: nat) (order: ColorOrder)

subsection \<open>The node interface\<close>

text \<open>
  \<^verbatim>\<open>class ImagePipelineNode\<close>: what a node shows to the node built on top of it through
  the const virtual getters. A transform node holds a reference \<^verbatim>\<open>source_\<close> to such a node
  and the getters below only read it.
\<close>

record ImagePipelineNode =
  get_width :: size_t
  get_height :: size_t
  get_format :: PixelFormat

definition get_row_bytes ::
  "(PixelFormat \<Rightarrow> size_t \<Rightarrow> size_t) \<Rightarrow> ImagePipelineNode \<Rightarrow> size_t" where
  "get_row_bytes get_pixel_row_bytes n = get_pixel_row_bytes (get_format n) (get_width n)"

subsection \<open>The pipeline stack\<close>

text \<open>
  \<^verbatim>\<open>class ImagePipelineStack\<close> owns the vector \<^verbatim>\<open>nodes_\<close>. The node type is left open:
  the stack only stores nodes, hands the last one to the constructor of the next one and
  calls its virtual \<^verbatim>\<open>get_next_row_data\<close>. The expression \<^verbatim>\<open>new Node(args...)\<close> is a
  parameter: the outcome of running the node's constructor, which may throw.
\<close>

record 'n ImagePipelineStack =
  nodes :: "'n list"

definition ImagePipelineStack_new :: "'n ImagePipelineStack" where
  "ImagePipelineStack_new = \<lparr>nodes = []\<rparr>"

definition clear :: "'n ImagePipelineStack \<Rightarrow> 'n ImagePipelineStack" where
  "clear s = s\<lparr>nodes := []\<rparr>"

definition push_first_node ::
  "(error + 'n) \<Rightarrow> 'n ImagePipelineStack \<Rightarrow> (error + unit) \<times> 'n ImagePipelineStack" where
  "push_first_node new_node s =
     (if nodes s \<noteq> [] then
        (Inl (SaneException ''Trying to append first node when there are existing nodes''), s)
      else
        (case new_node of
           Inl e \<Rightarrow> (Inl e, s)
         | Inr n \<Rightarrow> (Inr (), s\<lparr>nodes := nodes s @ [n]\<rparr>)))"

text \<open>
  Modelled from the spec: \<^verbatim>\<open>ensure_node_exists\<close> is declared in the header (a private const
  member) and defined out of line. The specification says that \<^verbatim>\<open>push_node\<close> fails if the
  stack is empty, with the construction error of "a non-first node onto an empty stack".
\<close>

definition ensure_node_exists :: "'n ImagePipelineStack \<Rightarrow> error + unit" where
  "ensure_node_exists s = (if nodes s = [] then Inl StackConstructionError else Inr ())"

text \<open>
  \<^verbatim>\<open>push_node\<close> calls \<^verbatim>\<open>ensure_node_exists()\<close> first, then builds the node from
  \<^verbatim>\<open>*nodes_.back()\<close> and appends it. \<^verbatim>\<open>back()\<close> of an empty vector is undefined.
\<close>

definition push_node ::
  "('n \<Rightarrow> error + 'n) \<Rightarrow> 'n ImagePipelineStack \<Rightarrow> (error + unit) \<times> 'n ImagePipelineStack" where
  "push_node new_node s =
     (case ensure_node_exists s of
        Inl e \<Rightarrow> (Inl e, s)
      | Inr _ \<Rightarrow>
          (case nodes s of
             [] \<Rightarrow> (Inl UndefinedBehaviour, s)
           | _ # _ \<Rightarrow>
               (case new_node (last (nodes s)) of
                  Inl e \<Rightarrow> (Inl e, s)
                | Inr n \<Rightarrow> (Inr (), s\<lparr>nodes := nodes s @ [n]\<rparr>))))"

text \<open>
  \<^verbatim>\<open>ImagePipelineStack::get_next_row_data\<close> is \<^verbatim>\<open>nodes_.back()->get_next_row_data(out_data)\<close>
  and nothing else. The virtual call is a parameter: it runs on the chain that ends in the
  last node, may change any node of the chain through the upstream references, and either
  throws or leaves the row in the caller's buffer.
\<close>

definition Stack_get_next_row_data ::
  "('n list \<Rightarrow> row \<Rightarrow> (error + row) \<times> 'n list) \<Rightarrow> 'n ImagePipelineStack \<Rightarrow> row
     \<Rightarrow> (error + row) \<times> 'n ImagePipelineStack" where
  "Stack_get_next_row_data node_get_next_row_data s out_data =
     (case nodes s of
        [] \<Rightarrow> (Inl UndefinedBehaviour, s)
      | _ # _ \<Rightarrow>
          (case node_get_next_row_data (nodes s) out_data of
             (res, ns) \<Rightarrow> (res, s\<lparr>nodes := ns\<rparr>)))"

subsection \<open>The plain-callback source\<close>

text \<open>
  \<^verbatim>\<open>class ImagePipelineNodeCallableSource\<close>. The producer is a
  \<^verbatim>\<open>std::function<void(std::size_t size, std::uint8_t* out_data)>\<close>: it returns nothing, so
  all the node ever learns from a call is whether it threw. The callable is modelled by the
  bytes it stores from \<^verbatim>\<open>out_data[0]\<close> on, together with the new value of whatever it
  captured (\<open>cs_captures\<close>, the state of the closure); the caller's buffer keeps its old
  contents beyond the bytes stored. Storing more bytes than the buffer holds is a write past
  its end.
\<close>

record 'p ImagePipelineNodeCallableSource =
  cs_producer :: "'p \<Rightarrow> size_t \<Rightarrow> error + (row \<times> 'p)"
  cs_captures :: 'p
  cs_width :: size_t
  cs_height :: size_t
  cs_format :: PixelFormat

definition CallableSource_new ::
  "size_t \<Rightarrow> size_t \<Rightarrow> PixelFormat \<Rightarrow> ('p \<Rightarrow> size_t \<Rightarrow> error + (row \<times> 'p)) \<Rightarrow> 'p
     \<Rightarrow> 'p ImagePipelineNodeCallableSource" where
  "CallableSource_new width height format producer captures =
     \<lparr>cs_producer = producer, cs_captures = captures,
      cs_width = width, cs_height = height, cs_format = format\<rparr>"

definition CallableSource_node :: "'p ImagePipelineNodeCallableSource \<Rightarrow> ImagePipelineNode" where
  "CallableSource_node s =
     \<lparr>get_width = cs_width s, get_height = cs_height s, get_format = cs_format s\<rparr>"

definition CallableSource_get_next_row_data ::
  "(PixelFormat \<Rightarrow> size_t \<Rightarrow> size_t) \<Rightarrow> 'p ImagePipelineNodeCallableSource \<Rightarrow> row
     \<Rightarrow> error + (row \<times> 'p ImagePipelineNodeCallableSource)" where
  "CallableSource_get_next_row_data get_pixel_row_bytes s out_data =
     (case cs_producer s (cs_captures s)
             (get_row_bytes get_pixel_row_bytes (CallableSource_node s)) of
        Inl e \<Rightarrow> Inl e
      | Inr (bytes, captures') \<Rightarrow>
          if length out_data < length bytes then Inl UndefinedBehaviour
          else Inr (bytes @ drop (length bytes) out_data, s\<lparr>cs_captures := captures'\<rparr>))"

text \<open>
  Concrete inputs used below: a row-size function of one byte per pixel, a producer that
  supplies one byte fewer than it is asked for, a producer that throws, and a source of
  width 4 built on each.
\<close>

definition one_byte_per_pixel :: "PixelFormat \<Rightarrow> size_t \<Rightarrow> size_t" where
  "one_byte_per_pixel format width = width"

definition short_producer :: "unit \<Rightarrow> size_t \<Rightarrow> error + (row \<times> unit)" where
  "short_producer c requested = Inr (replicate (unat requested - 1) 0xAB, c)"

definition throwing_producer :: "unit \<Rightarrow> size_t \<Rightarrow> error + (row \<times> unit)" where
  "throwing_producer c requested = Inl ProducerUnderrun"

definition short_source :: "unit ImagePipelineNodeCallableSource" where
  "short_source = CallableSource_new 4 1 (Layout 1 8 RGB) short_producer ()"

definition throwing_source :: "unit ImagePipelineNodeCallableSource" where
  "throwing_source = CallableSource_new 4 1 (Layout 1 8 RGB) throwing_producer ()"

subsection \<open>The array source\<close>

text \<open>
  \<^verbatim>\<open>class ImagePipelineNodeArraySource\<close>: the fields and getters are the header's, and
  \<^verbatim>\<open>next_row_\<close> starts at 0 by its default member initialiser.
\<close>

record ImagePipelineNodeArraySource =
  as_width :: size_t
  as_height :: size_t
  as_format :: PixelFormat
  as_data :: row
  as_next_row :: size_t

definition ArraySource_node :: "ImagePipelineNodeArraySource \<Rightarrow> ImagePipelineNode" where
  "ArraySource_node a =
     \<lparr>get_width = as_width a, get_height = as_height a, get_format = as_format a\<rparr>"

text \<open>
  Modelled from the spec: \<^verbatim>\<open>ImagePipelineNodeArraySource::get_next_row_data\<close> is defined
  out of line. The specification: the producer is a fixed in-memory block, rows are served
  by simple offset slicing, and the node fails with OutOfData if asked to produce beyond the
  configured height. The row is copied into the caller's buffer, which is undefined if the
  buffer is undersized; so is a slice that would end beyond the block.
\<close>

definition ArraySource_get_next_row_data ::
  "(PixelFormat \<Rightarrow> size_t \<Rightarrow> size_t) \<Rightarrow> ImagePipelineNodeArraySource \<Rightarrow> row
     \<Rightarrow> error + (row \<times> ImagePipelineNodeArraySource)" where
  "ArraySource_get_next_row_data get_pixel_row_bytes a out_data =
     (if as_height a \<le> as_next_row a then Inl OutOfData
      else
        let row_bytes = unat (get_row_bytes get_pixel_row_bytes (ArraySource_node a));
            first = row_bytes * unat (as_next_row a)
        in if length (as_data a) < first + row_bytes \<or> length out_data < row_bytes
           then Inl UndefinedBehaviour
           else Inr (take row_bytes (drop first (as_data a)) @ drop row_bytes out_data,
                     a\<lparr>as_next_row := as_next_row a + 1\<rparr>))"

text \<open>
  \<open>n\<close> calls in a row, each into a buffer that holds \<open>out_data\<close>; the rows come back in
  the order of the calls, and the first failure ends the sequence.
\<close>

fun ArraySource_rows ::
  "(PixelFormat \<Rightarrow> size_t \<Rightarrow> size_t) \<Rightarrow> row \<Rightarrow> nat \<Rightarrow> ImagePipelineNodeArraySource
     \<Rightarrow> error + (row list \<times> ImagePipelineNodeArraySource)" where
  "ArraySource_rows get_pixel_row_bytes out_data 0 a = Inr ([], a)"
| "ArraySource_rows get_pixel_row_bytes out_data (Suc n) a =
     (case ArraySource_get_next_row_data get_pixel_row_bytes a out_data of
        Inl e \<Rightarrow> Inl e
      | Inr (r, a') \<Rightarrow>
          (case ArraySource_rows get_pixel_row_bytes out_data n a' of
             Inl e \<Rightarrow> Inl e
           | Inr (rs, a'') \<Rightarrow> Inr (r # rs, a'')))"

definition example_array :: ImagePipelineNodeArraySource where
  "example_array =
     \<lparr>as_width = 2, as_height = 3, as_format = Layout 1 8 RGB,
      as_data = [10, 11, 20, 21, 30, 31], as_next_row = 0\<rparr>"

subsection \<open>Declared heights of the merge and desegmentation nodes\<close>

text \<open>
  \<^verbatim>\<open>class ImagePipelineNodeMergeMonoLines\<close>: the getters are the header's.
  \<^verbatim>\<open>RowBuffer\<close> belongs to the missing \<^verbatim>\<open>genesys_image.h\<close>; it is held as a list of
  rows and no getter reads it.
\<close>

record ImagePipelineNodeMergeMonoLines =
  mml_source :: ImagePipelineNode
  mml_output_format :: PixelFormat
  mml_buffer :: "row list"

definition MergeMonoLines_get_width :: "ImagePipelineNodeMergeMonoLines \<Rightarrow> size_t" where
  "MergeMonoLines_get_width m = get_width (mml_source m)"

definition MergeMonoLines_get_height :: "ImagePipelineNodeMergeMonoLines \<Rightarrow> size_t" where
  "MergeMonoLines_get_height m = get_height (mml_source m) div 3"

definition MergeMonoLines_get_format :: "ImagePipelineNodeMergeMonoLines \<Rightarrow> PixelFormat" where
  "MergeMonoLines_get_format m = mml_output_format m"

text \<open>
  \<^verbatim>\<open>class ImagePipelineNodeDesegment\<close>, the base class of
  \<^verbatim>\<open>ImagePipelineNodeDeinterleaveLines\<close>, which declares a constructor only and inherits
  every getter. \<^verbatim>\<open>get_height\<close> divides two \<^verbatim>\<open>std::size_t\<close> values; a division by zero is
  undefined.
\<close>

record ImagePipelineNodeDesegment =
  dsg_source :: ImagePipelineNode
  dsg_output_width :: size_t
  dsg_segment_order :: "32 word list"
  dsg_segment_pixels :: size_t
  dsg_interleaved_lines :: size_t
  dsg_pixels_per_chunk :: size_t
  dsg_buffer :: "row list"

definition Desegment_get_width :: "ImagePipelineNodeDesegment \<Rightarrow> size_t" where
  "Desegment_get_width d = dsg_output_width d"

definition Desegment_get_height :: "ImagePipelineNodeDesegment \<Rightarrow> error + size_t" where
  "Desegment_get_height d =
     (if dsg_interleaved_lines d = 0 then Inl UndefinedBehaviour
      else Inr (get_height (dsg_source d) div dsg_interleaved_lines d))"

definition Desegment_get_format :: "ImagePipelineNodeDesegment \<Rightarrow> PixelFormat" where
  "Desegment_get_format d = get_format (dsg_source d)"

text \<open>
  Modelled from the spec: the two constructors of \<^verbatim>\<open>ImagePipelineNodeDesegment\<close> are
  defined out of line. The specification: the source height must be an exact multiple of
  \<^verbatim>\<open>interleaved_lines\<close>, and a desegmentation whose source height is not divisible by
  \<^verbatim>\<open>interleaved_lines\<close> is a GeometryPrecondition error; the second form takes a segment
  count and stands for the order \<^verbatim>\<open>0..segment_count-1\<close>. The constructor of the derived
  deinterleave-lines node has to run one of the two. The only multiple of 0 is 0, which is
  how the remainder below reads a zero \<^verbatim>\<open>interleaved_lines\<close>.
\<close>

definition Desegment_new ::
  "ImagePipelineNode \<Rightarrow> size_t \<Rightarrow> 32 word list \<Rightarrow> size_t \<Rightarrow> size_t \<Rightarrow> size_t
     \<Rightarrow> error + ImagePipelineNodeDesegment" where
  "Desegment_new source output_width segment_order segment_pixels interleaved_lines
       pixels_per_chunk =
     (if unat (get_height source) mod unat interleaved_lines \<noteq> 0 then Inl GeometryPrecondition
      else Inr \<lparr>dsg_source = source, dsg_output_width = output_width,
                dsg_segment_order = segment_order, dsg_segment_pixels = segment_pixels,
                dsg_interleaved_lines = interleaved_lines,
                dsg_pixels_per_chunk = pixels_per_chunk, dsg_buffer = []\<rparr>)"

definition Desegment_new_count ::
  "ImagePipelineNode \<Rightarrow> size_t \<Rightarrow> size_t \<Rightarrow> size_t \<Rightarrow> size_t \<Rightarrow> size_t
     \<Rightarrow> error + ImagePipelineNodeDesegment" where
  "Desegment_new_count source output_width segment_count segment_pixels interleaved_lines
       pixels_per_chunk =
     Desegment_new source output_width (map of_nat [0..<unat segment_count]) segment_pixels
       interleaved_lines pixels_per_chunk"

section \<open>Properties of the stack\<close>

lemma push_first_node_failure_keeps_stack:
  "fst (push_first_node new_node s) = Inl e \<Longrightarrow> snd (push_first_node new_node s) = s"
  by (auto simp: push_first_node_def split: if_splits sum.splits)

lemma push_node_failure_keeps_stack:
  "fst (push_node new_node s) = Inl e \<Longrightarrow> snd (push_node new_node s) = s"
  by (auto simp: push_node_def split: sum.splits list.splits)

text \<open>
  C7. \<^verbatim>\<open>push_first_node\<close> on a stack that already holds a node throws the header's
  \<^verbatim>\<open>SaneException\<close>, \<^verbatim>\<open>push_node\<close> on an empty stack throws the construction error of
  \<^verbatim>\<open>ensure_node_exists\<close>, and whenever either operation fails (for these or for any other
  reason, such as a throwing node constructor) the stack is the one it was before the call:
  no node has been added.
\<close>

theorem push_on_wrong_stack_fails:
  "(nodes s \<noteq> [] \<longrightarrow>
      push_first_node new_first s =
        (Inl (SaneException ''Trying to append first node when there are existing nodes''), s))
   \<and> (nodes s = [] \<longrightarrow> push_node new_next s = (Inl StackConstructionError, s))
   \<and> (\<forall>e. fst (push_first_node new_first s) = Inl e \<longrightarrow> snd (push_first_node new_first s) = s)
   \<and> (\<forall>e. fst (push_node new_next s) = Inl e \<longrightarrow> snd (push_node new_next s) = s)"
proof (intro conjI impI allI)
  assume "nodes s \<noteq> []"
  then show "push_first_node new_first s =
      (Inl (SaneException ''Trying to append first node when there are existing nodes''), s)"
    by (simp add: push_first_node_def)
next
  assume "nodes s = []"
  then show "push_node new_next s = (Inl StackConstructionError, s)"
    by (simp add: push_node_def ensure_node_exists_def)
next
  fix e assume "fst (push_first_node new_first s) = Inl e"
  then show "snd (push_first_node new_first s) = s"
    by (rule push_first_node_failure_keeps_stack)
next
  fix e assume "fst (push_node new_next s) = Inl e"
  then show "snd (push_node new_next s) = s"
    by (rule push_node_failure_keeps_stack)
qed

theorem push_on_wrong_stack_fails_witness:
  "push_first_node (Inr (2::nat)) \<lparr>nodes = [1]\<rparr> =
     (Inl (SaneException ''Trying to append first node when there are existing nodes''),
      \<lparr>nodes = [1]\<rparr>)
   \<and> push_node (\<lambda>n. Inr (Suc n)) \<lparr>nodes = ([]::nat list)\<rparr> =
       (Inl StackConstructionError, \<lparr>nodes = []\<rparr>)
   \<and> snd (push_first_node (Inl OutOfData) \<lparr>nodes = ([]::nat list)\<rparr>) = \<lparr>nodes = []\<rparr>
   \<and> snd (push_node (\<lambda>n. Inl GeometryPrecondition) \<lparr>nodes = [1::nat]\<rparr>) = \<lparr>nodes = [1]\<rparr>"
proof -
  have full: "nodes \<lparr>nodes = [1::nat]\<rparr> \<noteq> []" and empty: "nodes \<lparr>nodes = ([]::nat list)\<rparr> = []"
    by simp_all
  have ctor1: "fst (push_first_node (Inl OutOfData) \<lparr>nodes = ([]::nat list)\<rparr>) = Inl OutOfData"
    by (simp add: push_first_node_def)
  have ctor2: "fst (push_node (\<lambda>n. Inl GeometryPrecondition) \<lparr>nodes = [1::nat]\<rparr>)
      = Inl GeometryPrecondition"
    by (simp add: push_node_def ensure_node_exists_def)
  from full empty ctor1 ctor2 show ?thesis
    using push_on_wrong_stack_fails [of "\<lparr>nodes = [1::nat]\<rparr>" "Inr 2" "\<lambda>n. Inl GeometryPrecondition"]
      push_on_wrong_stack_fails [of "\<lparr>nodes = ([]::nat list)\<rparr>" "Inl OutOfData" "\<lambda>n. Inr (Suc n)"]
    by blast
qed

text \<open>
  C10. On the empty stack \<^verbatim>\<open>get_next_row_data\<close> reports no error about the stack being
  empty: it reaches \<^verbatim>\<open>nodes_.back()\<close> with no check before it, which is undefined for an
  empty vector, and the virtual call is never made. \<^verbatim>\<open>push_node\<close> on the same stack is
  rejected by \<^verbatim>\<open>ensure_node_exists\<close>.
\<close>

theorem get_next_row_data_on_empty_stack_is_undefined:
  "Stack_get_next_row_data node_get_next_row_data ImagePipelineStack_new out_data =
     (Inl UndefinedBehaviour, ImagePipelineStack_new)
   \<and> fst (Stack_get_next_row_data node_get_next_row_data ImagePipelineStack_new out_data)
       \<noteq> Inl StackConstructionError
   \<and> fst (Stack_get_next_row_data node_get_next_row_data ImagePipelineStack_new out_data)
       \<noteq> Inl (SaneException msg)
   \<and> fst (push_node new_next ImagePipelineStack_new) = Inl StackConstructionError"
  by (simp add: Stack_get_next_row_data_def ImagePipelineStack_new_def push_node_def
      ensure_node_exists_def)

section \<open>Properties of the plain-callback source\<close>

text \<open>
  C8, as stated, fails on the plain-callback source: the producer below supplies three
  bytes when four are requested, and the call returns normally with the fourth byte of the
  caller's buffer left as it was. No ProducerUnderrun is raised.
\<close>

theorem callable_source_underrun_not_reported:
  "cs_producer short_source (cs_captures short_source)
       (get_row_bytes one_byte_per_pixel (CallableSource_node short_source)) =
     Inr ([0xAB, 0xAB, 0xAB], ())
   \<and> length [0xAB, 0xAB, 0xAB :: uint8_t]
       < unat (get_row_bytes one_byte_per_pixel (CallableSource_node short_source))
   \<and> CallableSource_get_next_row_data one_byte_per_pixel short_source [1, 2, 3, 4] =
       Inr ([0xAB, 0xAB, 0xAB, 4], short_source)
   \<and> CallableSource_get_next_row_data one_byte_per_pixel short_source [1, 2, 3, 4]
       \<noteq> Inl ProducerUnderrun"
  by (simp add: short_source_def CallableSource_new_def short_producer_def get_row_bytes_def
      CallableSource_node_def one_byte_per_pixel_def CallableSource_get_next_row_data_def
      numeral_3_eq_3)

text \<open>
  C8, amended. The plain-callback source calls the producer once, with the node's row byte
  count, and trusts it. An error thrown by the producer is the outcome of the call,
  unchanged. When the producer returns, the call succeeds whatever the number of bytes
  supplied: the buffer holds the supplied bytes followed by its old contents. The node
  raises no ProducerUnderrun of its own: the call ends in ProducerUnderrun only if the
  producer threw it.
\<close>

theorem CallableSource_reports_only_producer_errors:
  "(cs_producer s (cs_captures s) (get_row_bytes get_pixel_row_bytes (CallableSource_node s))
        = Inl e \<longrightarrow>
      CallableSource_get_next_row_data get_pixel_row_bytes s out_data = Inl e)
   \<and> (cs_producer s (cs_captures s) (get_row_bytes get_pixel_row_bytes (CallableSource_node s))
         = Inr (bytes, captures')
       \<and> length bytes \<le> length out_data \<longrightarrow>
      CallableSource_get_next_row_data get_pixel_row_bytes s out_data =
        Inr (bytes @ drop (length bytes) out_data, s\<lparr>cs_captures := captures'\<rparr>))
   \<and> (CallableSource_get_next_row_data get_pixel_row_bytes s out_data = Inl ProducerUnderrun \<longrightarrow>
      cs_producer s (cs_captures s) (get_row_bytes get_pixel_row_bytes (CallableSource_node s))
        = Inl ProducerUnderrun)"
  by (auto simp: CallableSource_get_next_row_data_def split: sum.splits if_splits)

theorem CallableSource_reports_only_producer_errors_witness:
  "CallableSource_get_next_row_data one_byte_per_pixel short_source [1, 2, 3, 4] =
     Inr ([0xAB, 0xAB, 0xAB, 4], short_source)
   \<and> CallableSource_get_next_row_data one_byte_per_pixel throwing_source [1, 2, 3, 4] =
       Inl ProducerUnderrun
   \<and> cs_producer throwing_source (cs_captures throwing_source)
        (get_row_bytes one_byte_per_pixel (CallableSource_node throwing_source))
       = Inl ProducerUnderrun"
proof -
  have short: "cs_producer short_source (cs_captures short_source)
        (get_row_bytes one_byte_per_pixel (CallableSource_node short_source))
      = Inr ([0xAB, 0xAB, 0xAB], ())
      \<and> length [0xAB, 0xAB, 0xAB :: uint8_t] \<le> length [1, 2, 3, 4 :: uint8_t]"
    by (simp add: short_source_def CallableSource_new_def short_producer_def get_row_bytes_def
        CallableSource_node_def one_byte_per_pixel_def numeral_3_eq_3)
  have throws: "cs_producer throwing_source (cs_captures throwing_source)
        (get_row_bytes one_byte_per_pixel (CallableSource_node throwing_source))
      = Inl ProducerUnderrun"
    by (simp add: throwing_source_def CallableSource_new_def throwing_producer_def)
  have same: "short_source\<lparr>cs_captures := ()\<rparr> = short_source"
    by simp
  have "CallableSource_get_next_row_data one_byte_per_pixel short_source [1, 2, 3, 4] =
      Inr ([0xAB, 0xAB, 0xAB] @ drop (length [0xAB, 0xAB, 0xAB :: uint8_t]) [1, 2, 3, 4],
           short_source\<lparr>cs_captures := ()\<rparr>)"
    using short CallableSource_reports_only_producer_errors
      [of short_source one_byte_per_pixel _ "[1, 2, 3, 4]" "[0xAB, 0xAB, 0xAB]" "()"]
    by blast
  moreover have "CallableSource_get_next_row_data one_byte_per_pixel throwing_source
      [1, 2, 3, 4] = Inl ProducerUnderrun"
    using throws CallableSource_reports_only_producer_errors
      [of throwing_source one_byte_per_pixel ProducerUnderrun "[1, 2, 3, 4]"]
    by blast
  ultimately show ?thesis
    using throws by (simp add: same)
qed

section \<open>Properties of the array source\<close>

lemma ArraySource_rows_exhausted:
  "as_height a \<le> as_next_row a \<Longrightarrow>
     ArraySource_rows get_pixel_row_bytes out_data (Suc m) a = Inl OutOfData"
  by (simp add: ArraySource_get_next_row_data_def)

lemma ArraySource_rows_add:
  "ArraySource_rows get_pixel_row_bytes out_data (n + m) a =
     (case ArraySource_rows get_pixel_row_bytes out_data n a of
        Inl e \<Rightarrow> Inl e
      | Inr (rs, a') \<Rightarrow>
          (case ArraySource_rows get_pixel_row_bytes out_data m a' of
             Inl e \<Rightarrow> Inl e
           | Inr (rs', a'') \<Rightarrow> Inr (rs @ rs', a'')))"
  by (induction n arbitrary: a) (auto split: sum.splits)

lemma unat_succ_below:
  fixes j h :: size_t
  assumes "unat j < unat h"
  shows "unat (j + 1) = Suc (unat j)"
proof -
  have "unat h < 2 ^ 64" using unsigned_less [of h] by simp
  with assms have "unat j + 1 < 2 ^ 64" by simp
  then show ?thesis by (simp add: unat_word_ariths)
qed

lemma ArraySource_one_row:
  assumes below: "unat (as_next_row a) < unat (as_height a)"
      and rb: "row_bytes = unat (get_row_bytes get_pixel_row_bytes (ArraySource_node a))"
      and block: "row_bytes * unat (as_height a) \<le> length (as_data a)"
      and buf: "length out_data = row_bytes"
  shows "ArraySource_get_next_row_data get_pixel_row_bytes a out_data =
           Inr (take row_bytes (drop (row_bytes * unat (as_next_row a)) (as_data a)),
                a\<lparr>as_next_row := as_next_row a + 1\<rparr>)"
proof -
  have "\<not> as_height a \<le> as_next_row a"
    using below by (simp add: word_le_nat_alt)
  moreover have "row_bytes * unat (as_next_row a) + row_bytes \<le> row_bytes * unat (as_height a)"
  proof -
    have "row_bytes * unat (as_next_row a) + row_bytes = row_bytes * Suc (unat (as_next_row a))"
      by simp
    also have "\<dots> \<le> row_bytes * unat (as_height a)"
      using below by (intro mult_le_mono2) simp
    finally show ?thesis .
  qed
  ultimately show ?thesis
    using rb block buf
    by (simp add: ArraySource_get_next_row_data_def Let_def)
qed

lemma ArraySource_rows_slices:
  assumes "unat (as_next_row a) + n \<le> unat (as_height a)"
      and "row_bytes = unat (get_row_bytes get_pixel_row_bytes (ArraySource_node a))"
      and "row_bytes * unat (as_height a) \<le> length (as_data a)"
      and "length out_data = row_bytes"
  shows "ArraySource_rows get_pixel_row_bytes out_data n a =
           Inr (map (\<lambda>k. take row_bytes (drop (row_bytes * k) (as_data a)))
                  [unat (as_next_row a) ..< unat (as_next_row a) + n],
                a\<lparr>as_next_row := as_next_row a + of_nat n\<rparr>)"
  using assms
proof (induction n arbitrary: a)
  case 0
  then show ?case by simp
next
  case (Suc n)
  let ?a' = "a\<lparr>as_next_row := as_next_row a + 1\<rparr>"
  have below: "unat (as_next_row a) < unat (as_height a)"
    using Suc.prems(1) by simp
  have step: "ArraySource_get_next_row_data get_pixel_row_bytes a out_data =
      Inr (take row_bytes (drop (row_bytes * unat (as_next_row a)) (as_data a)), ?a')"
    using below Suc.prems(2-4) by (rule ArraySource_one_row)
  have next_row: "unat (as_next_row ?a') = Suc (unat (as_next_row a))"
    using below by (simp add: unat_succ_below)
  have rest: "ArraySource_rows get_pixel_row_bytes out_data n ?a' =
      Inr (map (\<lambda>k. take row_bytes (drop (row_bytes * k) (as_data ?a')))
             [unat (as_next_row ?a') ..< unat (as_next_row ?a') + n],
           ?a'\<lparr>as_next_row := as_next_row ?a' + of_nat n\<rparr>)"
    using Suc.prems next_row by (intro Suc.IH) (simp_all add: ArraySource_node_def)
  have lst: "[unat (as_next_row a) ..< unat (as_next_row a) + Suc n] =
      unat (as_next_row a) # [Suc (unat (as_next_row a)) ..< Suc (unat (as_next_row a)) + n]"
    using upt_conv_Cons [of "unat (as_next_row a)" "unat (as_next_row a) + Suc n"]
    by (simp del: upt_Suc)
  have fin: "?a'\<lparr>as_next_row := as_next_row ?a' + of_nat n\<rparr> =
      a\<lparr>as_next_row := as_next_row a + of_nat (Suc n)\<rparr>"
    by (simp add: add.assoc)
  have rest': "ArraySource_rows get_pixel_row_bytes out_data n ?a' =
      Inr (map (\<lambda>k. take row_bytes (drop (row_bytes * k) (as_data a)))
             [Suc (unat (as_next_row a)) ..< Suc (unat (as_next_row a)) + n],
           a\<lparr>as_next_row := as_next_row a + of_nat (Suc n)\<rparr>)"
    using rest unfolding next_row fin by simp
  have "ArraySource_rows get_pixel_row_bytes out_data (Suc n) a =
      Inr (take row_bytes (drop (row_bytes * unat (as_next_row a)) (as_data a)) #
           map (\<lambda>k. take row_bytes (drop (row_bytes * k) (as_data a)))
             [Suc (unat (as_next_row a)) ..< Suc (unat (as_next_row a)) + n],
           a\<lparr>as_next_row := as_next_row a + of_nat (Suc n)\<rparr>)"
    by (simp only: ArraySource_rows.simps step rest' sum.case prod.case)
  then show ?case
    by (simp only: lst list.map)
qed




lemma ArraySource_served:
  assumes fresh: "as_next_row a = 0"
      and rb: "row_bytes = unat (get_row_bytes get_pixel_row_bytes (ArraySource_node a))"
      and block: "row_bytes * unat (as_height a) \<le> length (as_data a)"
      and buf: "length out_data = row_bytes"
      and n: "n \<le> unat (as_height a)"
  shows "ArraySource_rows get_pixel_row_bytes out_data n a =
      Inr (map (\<lambda>k. take row_bytes (drop (row_bytes * k) (as_data a))) [0..<n],
           a\<lparr>as_next_row := of_nat n\<rparr>)"
proof -
  have "unat (as_next_row a) + n \<le> unat (as_height a)"
    using n fresh by simp
  from ArraySource_rows_slices [OF this rb block buf] show ?thesis
    by (simp add: fresh)
qed


lemma ArraySource_refused:
  assumes fresh: "as_next_row a = 0"
      and rb: "row_bytes = unat (get_row_bytes get_pixel_row_bytes (ArraySource_node a))"
      and block: "row_bytes * unat (as_height a) \<le> length (as_data a)"
      and buf: "length out_data = row_bytes"
      and n: "unat (as_height a) < n"
  shows "ArraySource_rows get_pixel_row_bytes out_data n a = Inl OutOfData"
proof -
  define m where "m = n - Suc (unat (as_height a))"
  have m: "n = unat (as_height a) + Suc m"
    using n by (simp add: m_def)
  let ?a' = "a\<lparr>as_next_row := as_height a\<rparr>"
  have all: "ArraySource_rows get_pixel_row_bytes out_data (unat (as_height a)) a =
      Inr (map (\<lambda>k. take row_bytes (drop (row_bytes * k) (as_data a)))
             [0..<unat (as_height a)], ?a')"
    using ArraySource_served [OF fresh rb block buf order_refl] by simp
  have last: "ArraySource_rows get_pixel_row_bytes out_data (Suc m) ?a' = Inl OutOfData"
    by (rule ArraySource_rows_exhausted) simp
  have "ArraySource_rows get_pixel_row_bytes out_data (unat (as_height a) + Suc m) a
      = Inl OutOfData"
    by (subst ArraySource_rows_add) (simp only: all last sum.case prod.case)
  then show ?thesis
    by (simp only: m)
qed

text \<open>
  C9. Take an array source that has served no row yet, whose block holds at least
  \<open>height\<close> rows of \<open>row_bytes\<close> bytes, and a caller's buffer of \<open>row_bytes\<close> bytes.
  For every \<open>n\<close> up to the height, the first \<open>n\<close> calls succeed and return, in order, the
  slices of \<open>row_bytes\<close> bytes at the offsets \<open>0\<close>, \<open>row_bytes\<close>, \<open>2 * row_bytes\<close>, ... of
  the block. Any longer sequence of calls fails with OutOfData: the call after the last row
  returns no data.
\<close>

theorem ArraySource_serves_height_rows_then_OutOfData:
  assumes fresh: "as_next_row a = 0"
      and rb: "row_bytes = unat (get_row_bytes get_pixel_row_bytes (ArraySource_node a))"
      and block: "row_bytes * unat (as_height a) \<le> length (as_data a)"
      and buf: "length out_data = row_bytes"
  shows "(\<forall>n \<le> unat (as_height a).
            ArraySource_rows get_pixel_row_bytes out_data n a =
              Inr (map (\<lambda>k. take row_bytes (drop (row_bytes * k) (as_data a))) [0..<n],
                   a\<lparr>as_next_row := of_nat n\<rparr>))
       \<and> (\<forall>n > unat (as_height a).
            ArraySource_rows get_pixel_row_bytes out_data n a = Inl OutOfData)"
proof (intro conjI allI impI)
  fix n assume "n \<le> unat (as_height a)"
  with fresh rb block buf
  show "ArraySource_rows get_pixel_row_bytes out_data n a =
      Inr (map (\<lambda>k. take row_bytes (drop (row_bytes * k) (as_data a))) [0..<n],
           a\<lparr>as_next_row := of_nat n\<rparr>)"
    by (rule ArraySource_served)
next
  fix n assume "unat (as_height a) < n"
  with fresh rb block buf
  show "ArraySource_rows get_pixel_row_bytes out_data n a = Inl OutOfData"
    by (rule ArraySource_refused)
qed

theorem ArraySource_serves_height_rows_then_OutOfData_witness:
  "ArraySource_rows one_byte_per_pixel [0, 0] 3 example_array =
     Inr ([[10, 11], [20, 21], [30, 31]], example_array\<lparr>as_next_row := 3\<rparr>)
   \<and> ArraySource_rows one_byte_per_pixel [0, 0] 4 example_array = Inl OutOfData"
proof -
  have fresh: "as_next_row example_array = 0"
    by (simp add: example_array_def)
  have rb: "2 = unat (get_row_bytes one_byte_per_pixel (ArraySource_node example_array))"
    by (simp add: example_array_def one_byte_per_pixel_def get_row_bytes_def ArraySource_node_def)
  have block: "2 * unat (as_height example_array) \<le> length (as_data example_array)"
    by (simp add: example_array_def)
  have buf: "length [0, 0 :: uint8_t] = 2"
    by simp
  have h: "unat (as_height example_array) = 3"
    by (simp add: example_array_def)
  note served = ArraySource_serves_height_rows_then_OutOfData
    [OF fresh rb block buf, unfolded h, THEN conjunct1, rule_format, of 3]
  note refused = ArraySource_serves_height_rows_then_OutOfData
    [OF fresh rb block buf, unfolded h, THEN conjunct2, rule_format, of 4]
  have "ArraySource_rows one_byte_per_pixel [0, 0] 3 example_array =
      Inr (map (\<lambda>k. take 2 (drop (2 * k) (as_data example_array))) [0..<3],
           example_array\<lparr>as_next_row := of_nat 3\<rparr>)"
    using served by simp
  moreover have "[0..<3] = [0, 1, 2]"
    by code_simp
  moreover have "ArraySource_rows one_byte_per_pixel [0, 0] 4 example_array = Inl OutOfData"
    using refused by simp
  ultimately show ?thesis
    by (simp add: example_array_def)
qed

section \<open>Declared heights\<close>

lemma Desegment_new_rejects:
  "unat (get_height source) mod unat interleaved_lines \<noteq> 0 \<Longrightarrow>
     Desegment_new source output_width segment_order segment_pixels interleaved_lines
       pixels_per_chunk = Inl GeometryPrecondition"
  by (simp add: Desegment_new_def)

lemma exact_quotient:
  fixes h l :: size_t
  assumes "unat h mod unat l = 0"
  shows "h div l * l = h"
proof -
  have "unat (h div l) * unat l = unat h"
    using assms by (simp add: unat_div mod_eq_0_iff_dvd)
  then have "word_of_nat (unat (h div l) * unat l) = (word_of_nat (unat h) :: size_t)"
    by simp
  then show ?thesis
    by simp
qed

text \<open>
  C1. The merge-mono-lines node declares the height \<open>floor (h / 3)\<close> of its source height
  \<open>h\<close>. The desegmentation node, and with it the deinterleave-lines node that inherits the
  getter, declares \<open>h / interleaved_lines\<close>. When \<open>h\<close> is not an exact multiple of
  \<open>interleaved_lines\<close>, both constructors fail with GeometryPrecondition, so no node with a
  truncated height is built; when it is one (and \<open>interleaved_lines\<close> is not zero) the node
  is built and its declared height times \<open>interleaved_lines\<close> is exactly \<open>h\<close>.
\<close>

theorem declared_heights:
  "MergeMonoLines_get_height m = get_height (mml_source m) div 3
   \<and> unat (MergeMonoLines_get_height m) = unat (get_height (mml_source m)) div 3
   \<and> (dsg_interleaved_lines d \<noteq> 0 \<longrightarrow>
        Desegment_get_height d = Inr (get_height (dsg_source d) div dsg_interleaved_lines d)
        \<and> unat (get_height (dsg_source d) div dsg_interleaved_lines d) =
            unat (get_height (dsg_source d)) div unat (dsg_interleaved_lines d))
   \<and> (unat (get_height source) mod unat interleaved_lines \<noteq> 0 \<longrightarrow>
        Desegment_new source output_width segment_order segment_pixels interleaved_lines
          pixels_per_chunk = Inl GeometryPrecondition
        \<and> Desegment_new_count source output_width segment_count segment_pixels
            interleaved_lines pixels_per_chunk = Inl GeometryPrecondition)
   \<and> (interleaved_lines \<noteq> 0 \<and> unat (get_height source) mod unat interleaved_lines = 0 \<longrightarrow>
        (\<exists>n. Desegment_new source output_width segment_order segment_pixels interleaved_lines
               pixels_per_chunk = Inr n
             \<and> Desegment_get_height n = Inr (get_height source div interleaved_lines)
             \<and> get_height source div interleaved_lines * interleaved_lines = get_height source))"
proof (intro conjI impI)
  show "MergeMonoLines_get_height m = get_height (mml_source m) div 3"
    by (simp add: MergeMonoLines_get_height_def)
  show "unat (MergeMonoLines_get_height m) = unat (get_height (mml_source m)) div 3"
    by (simp add: MergeMonoLines_get_height_def unat_div)
next
  assume "dsg_interleaved_lines d \<noteq> 0"
  then show "Desegment_get_height d =
      Inr (get_height (dsg_source d) div dsg_interleaved_lines d)"
    by (simp add: Desegment_get_height_def)
  show "unat (get_height (dsg_source d) div dsg_interleaved_lines d) =
      unat (get_height (dsg_source d)) div unat (dsg_interleaved_lines d)"
    by (simp add: unat_div)
next
  assume "unat (get_height source) mod unat interleaved_lines \<noteq> 0"
  then show "Desegment_new source output_width segment_order segment_pixels interleaved_lines
      pixels_per_chunk = Inl GeometryPrecondition"
    and "Desegment_new_count source output_width segment_count segment_pixels
      interleaved_lines pixels_per_chunk = Inl GeometryPrecondition"
    by (simp_all add: Desegment_new_count_def Desegment_new_rejects)
next
  assume ok: "interleaved_lines \<noteq> 0 \<and> unat (get_height source) mod unat interleaved_lines = 0"
  then have "get_height source div interleaved_lines * interleaved_lines = get_height source"
    by (simp add: exact_quotient)
  with ok show "\<exists>n. Desegment_new source output_width segment_order segment_pixels
        interleaved_lines pixels_per_chunk = Inr n
      \<and> Desegment_get_height n = Inr (get_height source div interleaved_lines)
      \<and> get_height source div interleaved_lines * interleaved_lines = get_height source"
    by (simp add: Desegment_new_def Desegment_get_height_def)
qed

theorem declared_heights_witness:
  "MergeMonoLines_get_height
      \<lparr>mml_source = \<lparr>get_width = 4, get_height = 7, get_format = Layout 1 8 RGB\<rparr>,
       mml_output_format = Layout 3 8 RGB, mml_buffer = []\<rparr> = 2
   \<and> Desegment_get_height
        \<lparr>dsg_source = \<lparr>get_width = 4, get_height = 7, get_format = Layout 1 8 RGB\<rparr>,
         dsg_output_width = 4, dsg_segment_order = [0], dsg_segment_pixels = 4,
         dsg_interleaved_lines = 2, dsg_pixels_per_chunk = 1, dsg_buffer = []\<rparr> = Inr 3
   \<and> Desegment_new \<lparr>get_width = 4, get_height = 7, get_format = Layout 1 8 RGB\<rparr>
        4 [0] 4 2 1 = Inl GeometryPrecondition
   \<and> (\<exists>n. Desegment_new \<lparr>get_width = 4, get_height = 6, get_format = Layout 1 8 RGB\<rparr>
              4 [0] 4 2 1 = Inr n
            \<and> Desegment_get_height n = Inr 3)"
proof -
  let ?src7 = "\<lparr>get_width = 4, get_height = 7, get_format = Layout 1 8 RGB\<rparr>"
  let ?src6 = "\<lparr>get_width = 4, get_height = 6, get_format = Layout 1 8 RGB\<rparr>"
  let ?m = "\<lparr>mml_source = ?src7, mml_output_format = Layout 3 8 RGB, mml_buffer = []\<rparr>"
  let ?d = "\<lparr>dsg_source = ?src7, dsg_output_width = 4, dsg_segment_order = [0],
      dsg_segment_pixels = 4, dsg_interleaved_lines = 2, dsg_pixels_per_chunk = 1,
      dsg_buffer = []\<rparr>"
  have lines: "dsg_interleaved_lines ?d \<noteq> 0"
    by simp
  have odd: "unat (get_height ?src7) mod unat (2 :: size_t) \<noteq> 0"
    by simp
  have even: "(2 :: size_t) \<noteq> 0 \<and> unat (get_height ?src6) mod unat (2 :: size_t) = 0"
    by simp
  note at7 = declared_heights [of ?m ?d ?src7 2 4 "[0]" 4 1 1]
  note at6 = declared_heights [of ?m ?d ?src6 2 4 "[0]" 4 1 1]
  have "MergeMonoLines_get_height ?m = 2"
    using at7 by simp
  moreover have "Desegment_get_height ?d = Inr 3"
    using at7 lines by simp
  moreover have "Desegment_new ?src7 4 [0] 4 2 1 = Inl GeometryPrecondition"
    using at7 odd by blast
  moreover have "\<exists>n. Desegment_new ?src6 4 [0] 4 2 1 = Inr n \<and> Desegment_get_height n = Inr 3"
  proof -
    from at6 even obtain n where "Desegment_new ?src6 4 [0] 4 2 1 = Inr n"
      and "Desegment_get_height n = Inr (get_height ?src6 div 2)"
      by blast
    then show ?thesis by simp
  qed
  ultimately show ?thesis
    by blast
qed

end
